theory Spec2Isabelle
  imports Main "HOL-Library.AList"
begin

section \<open>JavaScript values\<close>

text \<open>
  The builder of \<^verbatim>\<open>src/index/Document.js\<close> stores whatever JavaScript value its caller
  passes, so the model has one type of values. Numbers are the integer-valued ones that
  JavaScript prints in plain decimal notation; strings are texts in UTF-8, one \<open>char\<close>
  per byte. An object is the list of its own properties in insertion order, which is the
  order a \<^verbatim>\<open>for ... in\<close> loop visits the option names in. Arrays and objects are
  values here: no claim below depends on two references to one array.
\<close>

datatype jsval =
    JUndefined
  | JNull
  | JBool bool
  | JNum int
  | JStr string
  | JArr (elements: "jsval list")
  | JObj (members: "(string \<times> jsval) list")

type_synonym obj = "(string \<times> jsval) list"

text \<open>\<^verbatim>\<open>x == null\<close> holds of \<^verbatim>\<open>null\<close> and of \<^verbatim>\<open>undefined\<close>, and of nothing else.\<close>

definition eq_null :: "jsval \<Rightarrow> bool" where
  "eq_null v = (v = JUndefined \<or> v = JNull)"

text \<open>Reading a property that an object does not have gives \<^verbatim>\<open>undefined\<close>.\<close>

definition get_prop :: "obj \<Rightarrow> string \<Rightarrow> jsval" where
  "get_prop ob k = (case map_of ob k of None \<Rightarrow> JUndefined | Some v \<Rightarrow> v)"

text \<open>
  The assignment \<^verbatim>\<open>ob[k] = v\<close> is \<^term>\<open>AList.update k v ob\<close>: an existing
  property keeps its place, a new one goes last.
\<close>

definition own_keys :: "obj \<Rightarrow> string list" where
  "own_keys ob = map fst ob"

subsection \<open>The helpers of the library that the file uses\<close>

text \<open>
  Modelled from the spec: the helper \<^verbatim>\<open>has\<close> is defined elsewhere in the library and
  is missing from the source file. The renderers "skip unset (absent) keys entirely":
  \<^verbatim>\<open>has(ob, k)\<close> says that \<open>k\<close> is a property of \<open>ob\<close> itself.
\<close>

definition has :: "obj \<Rightarrow> string \<Rightarrow> bool" where
  "has ob k = (map_of ob k \<noteq> None)"

text \<open>
  Modelled from the spec: the helper \<^verbatim>\<open>isString\<close> is missing from the source file.
  The expected shape of an argument of \<^verbatim>\<open>fields\<close> is "string-or-sequence"; this is
  the test for a string.
\<close>

definition isString :: "jsval \<Rightarrow> bool" where
  "isString v = (case v of JStr _ \<Rightarrow> True | _ \<Rightarrow> False)"

text \<open>
  Modelled from the spec: the helper \<^verbatim>\<open>isArray\<close> is missing from the source file.
  It is the test for a sequence ("for sequence-valued options, joins elements with a
  comma").
\<close>

definition isArray :: "jsval \<Rightarrow> bool" where
  "isArray v = (case v of JArr _ \<Rightarrow> True | _ \<Rightarrow> False)"

text \<open>
  Modelled from the spec: the helper \<^verbatim>\<open>isObject\<close> is missing from the source file.
  The expected shape of an argument of \<^verbatim>\<open>params\<close>, \<^verbatim>\<open>upsert\<close> and
  \<^verbatim>\<open>source\<close> is "a key-value mapping".
\<close>

definition isObject :: "jsval \<Rightarrow> bool" where
  "isObject v = (case v of JObj _ \<Rightarrow> True | _ \<Rightarrow> False)"

subsection \<open>Built-in operations of the language\<close>

fun join :: "string \<Rightarrow> string list \<Rightarrow> string" where
  "join sep [] = []"
| "join sep [x] = x"
| "join sep (x # y # ys) = x @ sep @ join sep (y # ys)"

definition digit_char :: "nat \<Rightarrow> char" where
  "digit_char n = ''0123456789'' ! n"

function digits :: "nat \<Rightarrow> string" where
  "digits n = (if n < 10 then [digit_char n] else digits (n div 10) @ [digit_char (n mod 10)])"
  by pat_completeness auto
termination
  by (relation "measure (\<lambda>n. n)") auto

text \<open>
  \<^verbatim>\<open>String(v)\<close>, which string concatenation and \<^verbatim>\<open>encodeURIComponent\<close> apply to
  their operand. An array is its elements joined with a comma, where \<^verbatim>\<open>null\<close> and
  \<^verbatim>\<open>undefined\<close> elements give the empty string.
\<close>

fun toStr :: "jsval \<Rightarrow> string" where
  "toStr JUndefined = ''undefined''"
| "toStr JNull = ''null''"
| "toStr (JBool b) = (if b then ''true'' else ''false'')"
| "toStr (JNum n) = (if n < 0 then ''-'' @ digits (nat (- n)) else digits (nat n))"
| "toStr (JStr s) = s"
| "toStr (JArr xs) = join '','' (map (\<lambda>x. if x = JUndefined \<or> x = JNull then [] else toStr x) xs)"
| "toStr (JObj kvs) = ''[object Object]''"

text \<open>\<^verbatim>\<open>xs.join(sep)\<close>; \<^verbatim>\<open>xs.join()\<close> is \<^verbatim>\<open>xs.join(',')\<close>.\<close>

definition Array_join :: "string \<Rightarrow> jsval list \<Rightarrow> string" where
  "Array_join sep xs = join sep (map (\<lambda>x. if eq_null x then [] else toStr x) xs)"

text \<open>
  \<^verbatim>\<open>s.toLowerCase()\<close> on the letters A to Z; every other byte is kept. No character
  outside A to Z and a to z is lowered by JavaScript to a letter of an option value
  (internal, external, index, create, async, sync, default, one, quorum, all), so the
  accessors accept and store the same strings under both.
\<close>

definition lower_char :: "char \<Rightarrow> char" where
  "lower_char c =
     (case map_of (zip ''ABCDEFGHIJKLMNOPQRSTUVWXYZ'' ''abcdefghijklmnopqrstuvwxyz'') c of
        None \<Rightarrow> c
      | Some l \<Rightarrow> l)"

definition toLowerCase :: "string \<Rightarrow> string" where
  "toLowerCase s = map lower_char s"

definition hex_upper :: "nat \<Rightarrow> char" where
  "hex_upper n = ''0123456789ABCDEF'' ! n"

definition hex_lower :: "nat \<Rightarrow> char" where
  "hex_lower n = ''0123456789abcdef'' ! n"

text \<open>
  \<^verbatim>\<open>encodeURIComponent\<close> keeps the letters, the digits and \<^verbatim>\<open>- _ . ! ~ * ' ( )\<close>,
  and writes every other byte of the UTF-8 text as \<^verbatim>\<open>%XX\<close>.
\<close>

definition uri_unreserved :: "char \<Rightarrow> bool" where
  "uri_unreserved c =
     (c \<in> set (''ABCDEFGHIJKLMNOPQRSTUVWXYZabcdefghijklmnopqrstuvwxyz0123456789-_.!~*()''
                @ [CHR 0x27]))"

definition uri_escape :: "char \<Rightarrow> string" where
  "uri_escape c =
     (if uri_unreserved c then [c]
      else [CHR ''%'', hex_upper (of_char c div 16), hex_upper (of_char c mod 16)])"

definition encodeURIComponent :: "string \<Rightarrow> string" where
  "encodeURIComponent s = concat (map uri_escape s)"

text \<open>
  \<^verbatim>\<open>JSON.stringify\<close>. A string is quoted, with the quote, the backslash and the
  control characters escaped; an \<^verbatim>\<open>undefined\<close> element of an array is written
  \<^verbatim>\<open>null\<close>, an \<^verbatim>\<open>undefined\<close> member of an object is left out, and
  \<^verbatim>\<open>JSON.stringify(undefined)\<close> is \<^verbatim>\<open>undefined\<close>.
\<close>

definition json_escape :: "char \<Rightarrow> string" where
  "json_escape c =
     (if c = CHR 0x22 then [CHR 0x5C, CHR 0x22]
      else if c = CHR 0x5C then [CHR 0x5C, CHR 0x5C]
      else if c = CHR 0x08 then [CHR 0x5C, CHR ''b'']
      else if c = CHR 0x0C then [CHR 0x5C, CHR ''f'']
      else if c = CHR 0x0A then [CHR 0x5C, CHR ''n'']
      else if c = CHR 0x0D then [CHR 0x5C, CHR ''r'']
      else if c = CHR 0x09 then [CHR 0x5C, CHR ''t'']
      else if (of_char c :: nat) < 32
        then [CHR 0x5C, CHR ''u'', CHR ''0'', CHR ''0'',
              hex_lower (of_char c div 16), hex_lower (of_char c mod 16)]
      else [c])"

definition json_quote :: "string \<Rightarrow> string" where
  "json_quote s = [CHR 0x22] @ concat (map json_escape s) @ [CHR 0x22]"

fun json_text :: "jsval \<Rightarrow> string" where
  "json_text JUndefined = ''null''"
| "json_text JNull = ''null''"
| "json_text (JBool b) = (if b then ''true'' else ''false'')"
| "json_text (JNum n) = toStr (JNum n)"
| "json_text (JStr s) = json_quote s"
| "json_text (JArr xs) = ''['' @ join '','' (map json_text xs) @ '']''"
| "json_text (JObj kvs) =
     ''{'' @ join '','' (map (\<lambda>(k, v). json_quote k @ '':'' @ json_text v)
                           (filter (\<lambda>(k, v). v \<noteq> JUndefined) kvs)) @ ''}''"

definition JSON_stringify :: "jsval \<Rightarrow> jsval" where
  "JSON_stringify v = (if v = JUndefined then JUndefined else JStr (json_text v))"

subsection \<open>Errors and method calls on a value of the wrong kind\<close>

text \<open>
  \<open>Error m\<close> and \<open>TypeError m\<close> are the exceptions the file throws itself, with
  their messages. \<open>NotAFunction f\<close> is the \<^verbatim>\<open>TypeError\<close> that the language raises
  when \<^verbatim>\<open>v.f(...)\<close> is called and \<open>v\<close> has no method \<open>f\<close>; its message differs
  between engines, so only the name of the method is kept.
\<close>

datatype error =
    Error string
  | TypeError string
  | NotAFunction string

fun is_TypeError :: "error \<Rightarrow> bool" where
  "is_TypeError (Error m) = False"
| "is_TypeError (TypeError m) = True"
| "is_TypeError (NotAFunction f) = True"

fun call_toLowerCase :: "jsval \<Rightarrow> error + string" where
  "call_toLowerCase (JStr s) = Inr (toLowerCase s)"
| "call_toLowerCase v = Inl (NotAFunction ''toLowerCase'')"

text \<open>
  \<^verbatim>\<open>arr.push(v)\<close> changes the array in place; the result is the array afterwards,
  which the caller stores back.
\<close>

fun call_push :: "jsval \<Rightarrow> jsval \<Rightarrow> error + jsval" where
  "call_push (JArr xs) v = Inr (JArr (xs @ [v]))"
| "call_push a v = Inl (NotAFunction ''push'')"

section \<open>The document builder\<close>

text \<open>
  \<^verbatim>\<open>ejs.Document = function (index, type, id)\<close> closes over its three arguments and
  over the option map \<^verbatim>\<open>params\<close>, which starts empty. The record holds these four
  variables; every method takes the record and returns it as the call leaves it.
\<close>

record document =
  v_index :: jsval
  v_type :: jsval
  v_id :: jsval
  v_params :: obj

definition Document :: "jsval \<Rightarrow> jsval \<Rightarrow> jsval \<Rightarrow> document" where
  "Document index type i = \<lparr>v_index = index, v_type = type, v_id = i, v_params = []\<rparr>"

text \<open>\<^verbatim>\<open>params.k\<close> and \<^verbatim>\<open>params.k = v\<close>.\<close>

definition params_get :: "string \<Rightarrow> document \<Rightarrow> jsval" where
  "params_get k d = get_prop (v_params d) k"

definition params_set :: "string \<Rightarrow> jsval \<Rightarrow> document \<Rightarrow> document" where
  "params_set k v d = d\<lparr>v_params := AList.update k v (v_params d)\<rparr>"

text \<open>
  What a call of an accessor does: it returns a value, it returns \<^verbatim>\<open>this\<close> (the
  builder, for chaining), or it throws.
\<close>

datatype outcome =
    Value jsval
  | This
  | Throw error

subsection \<open>Accessors\<close>

definition index :: "jsval \<Rightarrow> document \<Rightarrow> outcome \<times> document" where
  "index idx d =
     (if eq_null idx then (Value (v_index d), d)
      else (This, d\<lparr>v_index := idx\<rparr>))"

definition type :: "jsval \<Rightarrow> document \<Rightarrow> outcome \<times> document" where
  "type t d =
     (if eq_null t then (Value (v_type d), d)
      else (This, d\<lparr>v_type := t\<rparr>))"

definition id' :: "jsval \<Rightarrow> document \<Rightarrow> outcome \<times> document" where
  "id' i d =
     (if eq_null i then (Value (v_id d), d)
      else (This, d\<lparr>v_id := i\<rparr>))"

definition routing :: "jsval \<Rightarrow> document \<Rightarrow> outcome \<times> document" where
  "routing route d =
     (if eq_null route then (Value (params_get ''routing'' d), d)
      else (This, params_set ''routing'' route d))"

definition parent :: "jsval \<Rightarrow> document \<Rightarrow> outcome \<times> document" where
  "parent p d =
     (if eq_null p then (Value (params_get ''parent'' d), d)
      else (This, params_set ''parent'' p d))"

definition timestamp :: "jsval \<Rightarrow> document \<Rightarrow> outcome \<times> document" where
  "timestamp ts d =
     (if eq_null ts then (Value (params_get ''timestamp'' d), d)
      else (This, params_set ''timestamp'' ts d))"

definition ttl :: "jsval \<Rightarrow> document \<Rightarrow> outcome \<times> document" where
  "ttl len d =
     (if eq_null len then (Value (params_get ''ttl'' d), d)
      else (This, params_set ''ttl'' len d))"

definition timeout :: "jsval \<Rightarrow> document \<Rightarrow> outcome \<times> document" where
  "timeout len d =
     (if eq_null len then (Value (params_get ''timeout'' d), d)
      else (This, params_set ''timeout'' len d))"

definition refresh :: "jsval \<Rightarrow> document \<Rightarrow> outcome \<times> document" where
  "refresh trueFalse d =
     (if eq_null trueFalse then (Value (params_get ''refresh'' d), d)
      else (This, params_set ''refresh'' trueFalse d))"

definition version :: "jsval \<Rightarrow> document \<Rightarrow> outcome \<times> document" where
  "version v d =
     (if eq_null v then (Value (params_get ''version'' d), d)
      else (This, params_set ''version'' v d))"

definition versionType :: "jsval \<Rightarrow> document \<Rightarrow> outcome \<times> document" where
  "versionType vt d =
     (if eq_null vt then (Value (params_get ''version_type'' d), d)
      else case call_toLowerCase vt of
             Inl e \<Rightarrow> (Throw e, d)
           | Inr vt' \<Rightarrow>
               if vt' = ''internal'' \<or> vt' = ''external''
               then (This, params_set ''version_type'' (JStr vt') d)
               else (This, d))"

definition percolate :: "jsval \<Rightarrow> document \<Rightarrow> outcome \<times> document" where
  "percolate qry d =
     (if eq_null qry then (Value (params_get ''percolate'' d), d)
      else (This, params_set ''percolate'' qry d))"

definition opType :: "jsval \<Rightarrow> document \<Rightarrow> outcome \<times> document" where
  "opType op d =
     (if eq_null op then (Value (params_get ''op_type'' d), d)
      else case call_toLowerCase op of
             Inl e \<Rightarrow> (Throw e, d)
           | Inr op' \<Rightarrow>
               if op' = ''index'' \<or> op' = ''create''
               then (This, params_set ''op_type'' (JStr op') d)
               else (This, d))"

definition replication :: "jsval \<Rightarrow> document \<Rightarrow> outcome \<times> document" where
  "replication r d =
     (if eq_null r then (Value (params_get ''replication'' d), d)
      else case call_toLowerCase r of
             Inl e \<Rightarrow> (Throw e, d)
           | Inr r' \<Rightarrow>
               if r' = ''async'' \<or> r' = ''sync'' \<or> r' = ''default''
               then (This, params_set ''replication'' (JStr r') d)
               else (This, d))"

definition consistency :: "jsval \<Rightarrow> document \<Rightarrow> outcome \<times> document" where
  "consistency c d =
     (if eq_null c then (Value (params_get ''consistency'' d), d)
      else case call_toLowerCase c of
             Inl e \<Rightarrow> (Throw e, d)
           | Inr c' \<Rightarrow>
               if c' = ''default'' \<or> c' = ''one'' \<or> c' = ''quorum'' \<or> c' = ''all''
               then (This, params_set ''consistency'' (JStr c') d)
               else (This, d))"

definition preference :: "jsval \<Rightarrow> document \<Rightarrow> outcome \<times> document" where
  "preference p d =
     (if eq_null p then (Value (params_get ''preference'' d), d)
      else (This, params_set ''preference'' p d))"

definition realtime :: "jsval \<Rightarrow> document \<Rightarrow> outcome \<times> document" where
  "realtime trueFalse d =
     (if eq_null trueFalse then (Value (params_get ''realtime'' d), d)
      else (This, params_set ''realtime'' trueFalse d))"

text \<open>
  \<^verbatim>\<open>fields\<close> first makes \<^verbatim>\<open>params.fields\<close> an empty array when it is unset, and
  keeps that when it goes on to return or to throw.
\<close>

definition fields :: "jsval \<Rightarrow> document \<Rightarrow> outcome \<times> document" where
  "fields fs d =
     (let d1 = (if eq_null (params_get ''fields'' d)
                then params_set ''fields'' (JArr []) d else d)
      in if eq_null fs then (Value (params_get ''fields'' d1), d1)
         else if isString fs then
           (case call_push (params_get ''fields'' d1) fs of
              Inl e \<Rightarrow> (Throw e, d1)
            | Inr arr \<Rightarrow> (This, params_set ''fields'' arr d1))
         else if isArray fs then (This, params_set ''fields'' fs d1)
         else (Throw (TypeError ''Argument must be string or array''), d1))"

definition script :: "jsval \<Rightarrow> document \<Rightarrow> outcome \<times> document" where
  "script s d =
     (if eq_null s then (Value (params_get ''script'' d), d)
      else (This, params_set ''script'' s d))"

definition lang :: "jsval \<Rightarrow> document \<Rightarrow> outcome \<times> document" where
  "lang l d =
     (if eq_null l then (Value (params_get ''lang'' d), d)
      else (This, params_set ''lang'' l d))"

definition params :: "jsval \<Rightarrow> document \<Rightarrow> outcome \<times> document" where
  "params p d =
     (if eq_null p then (Value (params_get ''params'' d), d)
      else if \<not> isObject p then (Throw (TypeError ''Argument must be an object''), d)
      else (This, params_set ''params'' p d))"

definition retryOnConflict :: "jsval \<Rightarrow> document \<Rightarrow> outcome \<times> document" where
  "retryOnConflict num d =
     (if eq_null num then (Value (params_get ''retry_on_conflict'' d), d)
      else (This, params_set ''retry_on_conflict'' num d))"

definition upsert :: "jsval \<Rightarrow> document \<Rightarrow> outcome \<times> document" where
  "upsert doc d =
     (if eq_null doc then (Value (params_get ''upsert'' d), d)
      else if \<not> isObject doc then (Throw (TypeError ''Argument must be an object''), d)
      else (This, params_set ''upsert'' doc d))"

definition source :: "jsval \<Rightarrow> document \<Rightarrow> outcome \<times> document" where
  "source doc d =
     (if eq_null doc then (Value (params_get ''source'' d), d)
      else if \<not> isObject doc then (Throw (TypeError ''Argument must be an object''), d)
      else (This, params_set ''source'' doc d))"

definition toString :: "document \<Rightarrow> jsval" where
  "toString d = JSON_stringify (JObj (v_params d))"

definition self' :: "document \<Rightarrow> obj" where
  "self' d = v_params d"

subsection \<open>Rendering the options\<close>

text \<open>
  \<^verbatim>\<open>genClientParams\<close>: the loop \<^verbatim>\<open>for (var param in params)\<close> runs over the
  names of the option map and fills \<^verbatim>\<open>clientParams\<close>.
\<close>

fun genClientParams_loop :: "obj \<Rightarrow> string list \<Rightarrow> obj \<Rightarrow> obj" where
  "genClientParams_loop ps [] clientParams = clientParams"
| "genClientParams_loop ps (param # rest) clientParams =
     (if \<not> has ps param then genClientParams_loop ps rest clientParams
      else if param = ''upsert'' \<or> param = ''source'' \<or> param = ''script''
              \<or> param = ''lang'' \<or> param = ''params''
        then genClientParams_loop ps rest clientParams
      else let paramVal = get_prop ps param;
               paramVal = (if isArray paramVal
                           then JStr (Array_join '','' (elements paramVal))
                           else paramVal)
           in genClientParams_loop ps rest (AList.update param paramVal clientParams))"

definition genClientParams :: "obj \<Rightarrow> obj" where
  "genClientParams ps = genClientParams_loop ps (own_keys ps) []"

text \<open>
  \<^verbatim>\<open>genParamStr\<close>: the loop pushes one \<^verbatim>\<open>key=value\<close> onto \<^verbatim>\<open>parts\<close> for
  each client parameter, and the parts are joined with \<^verbatim>\<open>&\<close>.
\<close>

fun genParamStr_loop :: "obj \<Rightarrow> string list \<Rightarrow> string list \<Rightarrow> string list" where
  "genParamStr_loop clientParams [] parts = parts"
| "genParamStr_loop clientParams (p # rest) parts =
     (if \<not> has clientParams p then genParamStr_loop clientParams rest parts
      else genParamStr_loop clientParams rest
             (parts @ [p @ ''='' @ encodeURIComponent (toStr (get_prop clientParams p))]))"

definition genParamStr :: "obj \<Rightarrow> string" where
  "genParamStr ps =
     (let clientParams = genClientParams ps;
          parts = genParamStr_loop clientParams (own_keys clientParams) []
      in join ''&'' parts)"

subsection \<open>Dispatch\<close>

text \<open>
  \<^verbatim>\<open>ejs.client\<close> is either unset (\<^verbatim>\<open>null\<close> or \<^verbatim>\<open>undefined\<close>) or an object with
  the methods \<^verbatim>\<open>get\<close>, \<^verbatim>\<open>post\<close>, \<^verbatim>\<open>put\<close> and \<^verbatim>\<open>del\<close>. What a client does
  with a call is its own business, so a dispatch operation results in the call it makes:
  the method, the URL, the data and the callback it passes on.
\<close>

datatype client = ClientUnset | ClientObject

datatype verb = GET | POST | PUT | DEL

datatype 'f client_call =
  ClientCall (verb: verb) (url: string) (data: jsval) (callback: 'f)

definition doGet :: "client \<Rightarrow> 'f \<Rightarrow> document \<Rightarrow> (error + 'f client_call) \<times> document" where
  "doGet ejs_client fnCallBack d =
     (if ejs_client = ClientUnset then (Inl (Error ''No Client Set''), d)
      else if eq_null (v_index d) \<or> eq_null (v_type d) \<or> eq_null (v_id d)
        then (Inl (Error ''Index, Type, and ID must be set''), d)
      else let url = ''/'' @ toStr (v_index d) @ ''/'' @ toStr (v_type d)
                     @ ''/'' @ toStr (v_id d)
           in (Inr (ClientCall GET url (JObj (genClientParams (v_params d))) fnCallBack), d))"

definition doIndex :: "client \<Rightarrow> 'f \<Rightarrow> document \<Rightarrow> (error + 'f client_call) \<times> document" where
  "doIndex ejs_client fnCallBack d =
     (if ejs_client = ClientUnset then (Inl (Error ''No Client Set''), d)
      else if eq_null (v_index d) \<or> eq_null (v_type d)
        then (Inl (Error ''Index and Type must be set''), d)
      else if eq_null (params_get ''source'' d)
        then (Inl (Error ''No source document found''), d)
      else let url = ''/'' @ toStr (v_index d) @ ''/'' @ toStr (v_type d);
               data = JSON_stringify (params_get ''source'' d);
               paramStr = genParamStr (v_params d);
               url = (if \<not> eq_null (v_id d) then url @ ''/'' @ toStr (v_id d) else url);
               url = (if paramStr \<noteq> [] then url @ ''?'' @ paramStr else url)
           in if eq_null (v_id d)
              then (Inr (ClientCall POST url data fnCallBack), d)
              else (Inr (ClientCall PUT url data fnCallBack), d))"

text \<open>
  The body of an update is built key by key: \<^verbatim>\<open>data.k = v\<close> when the guard holds,
  nothing otherwise.
\<close>

definition set_when :: "bool \<Rightarrow> string \<Rightarrow> jsval \<Rightarrow> obj \<Rightarrow> obj" where
  "set_when b k v ob = (if b then AList.update k v ob else ob)"

definition doUpdate :: "client \<Rightarrow> 'f \<Rightarrow> document \<Rightarrow> (error + 'f client_call) \<times> document" where
  "doUpdate ejs_client fnCallBack d =
     (if ejs_client = ClientUnset then (Inl (Error ''No Client Set''), d)
      else if eq_null (v_index d) \<or> eq_null (v_type d) \<or> eq_null (v_id d)
        then (Inl (Error ''Index, Type, and ID must be set''), d)
      else if eq_null (params_get ''script'' d) \<and> eq_null (params_get ''source'' d)
        then (Inl (Error ''Update script or document required''), d)
      else let url = ''/'' @ toStr (v_index d) @ ''/'' @ toStr (v_type d)
                     @ ''/'' @ toStr (v_id d) @ ''/_update'';
               data = [];
               paramStr = genParamStr (v_params d);
               url = (if paramStr \<noteq> [] then url @ ''?'' @ paramStr else url);
               data = set_when (\<not> eq_null (params_get ''script'' d))
                        ''script'' (params_get ''script'' d) data;
               data = set_when (\<not> eq_null (params_get ''lang'' d))
                        ''lang'' (params_get ''lang'' d) data;
               data = set_when (\<not> eq_null (params_get ''params'' d))
                        ''params'' (params_get ''params'' d) data;
               data = set_when (\<not> eq_null (params_get ''upsert'' d))
                        ''upsert'' (params_get ''upsert'' d) data;
               data = set_when (\<not> eq_null (params_get ''source'' d))
                        ''doc'' (params_get ''source'' d) data
           in (Inr (ClientCall POST url (JSON_stringify (JObj data)) fnCallBack), d))"

definition doDelete :: "client \<Rightarrow> 'f \<Rightarrow> document \<Rightarrow> (error + 'f client_call) \<times> document" where
  "doDelete ejs_client fnCallBack d =
     (if ejs_client = ClientUnset then (Inl (Error ''No Client Set''), d)
      else if eq_null (v_index d) \<or> eq_null (v_type d) \<or> eq_null (v_id d)
        then (Inl (Error ''Index, Type, and ID must be set''), d)
      else let url = ''/'' @ toStr (v_index d) @ ''/'' @ toStr (v_type d)
                     @ ''/'' @ toStr (v_id d);
               data = JStr '''';
               paramStr = genParamStr (v_params d);
               url = (if paramStr \<noteq> [] then url @ ''?'' @ paramStr else url)
           in (Inr (ClientCall DEL url data fnCallBack), d))"

section \<open>The specification's words for what the accessors do\<close>

text \<open>
  Setting then reading an option gives back the value passed: the call with the value
  returns the builder, and the call with no argument that follows returns that value.
\<close>

definition round_trip :: "(jsval \<Rightarrow> document \<Rightarrow> outcome \<times> document) \<Rightarrow> jsval \<Rightarrow> document \<Rightarrow> bool" where
  "round_trip acc v d =
     (fst (acc v d) = This \<and> fst (acc JUndefined (snd (acc v d))) = Value v)"

text \<open>
  The stored sequence of field names, an unset option counting as the empty sequence.
\<close>

definition stored_fields :: "document \<Rightarrow> jsval list" where
  "stored_fields d =
     (if eq_null (params_get ''fields'' d) then [] else elements (params_get ''fields'' d))"

section \<open>The specification's words for what the renderers and the dispatch do\<close>

text \<open>
  The query string is appended to the URL after \<^verbatim>\<open>?\<close> when it is not empty.
\<close>

definition query_suffix :: "document \<Rightarrow> string" where
  "query_suffix d =
     (if genParamStr (v_params d) = [] then [] else ''?'' @ genParamStr (v_params d))"

text \<open>
  The body renderer: an object with the keys \<^verbatim>\<open>script\<close>, \<^verbatim>\<open>lang\<close>,
  \<^verbatim>\<open>params\<close> and \<^verbatim>\<open>upsert\<close>, each only if set, and \<^verbatim>\<open>doc\<close> for the source,
  only if set.
\<close>

definition update_body :: "document \<Rightarrow> obj" where
  "update_body d =
     filter (\<lambda>(k, v). \<not> eq_null v)
       [(''script'', params_get ''script'' d),
        (''lang'', params_get ''lang'' d),
        (''params'', params_get ''params'' d),
        (''upsert'', params_get ''upsert'' d),
        (''doc'', params_get ''source'' d)]"

text \<open>
  The query-string renderer: it leaves out the keys that belong in the body, joins the
  elements of a sequence with a comma, URL-encodes each value and joins the
  \<^verbatim>\<open>key=value\<close> pairs with \<^verbatim>\<open>&\<close>.
\<close>

definition body_keys :: "string list" where
  "body_keys = [''upsert'', ''source'', ''script'', ''lang'', ''params'']"

definition query_value :: "jsval \<Rightarrow> string" where
  "query_value v =
     encodeURIComponent (if isArray v then Array_join '','' (elements v) else toStr v)"

definition query_pair :: "string \<times> jsval \<Rightarrow> string" where
  "query_pair kv = fst kv @ ''='' @ query_value (snd kv)"

definition query_string_spec :: "obj \<Rightarrow> string" where
  "query_string_spec ps =
     join ''&'' (map query_pair (filter (\<lambda>kv. fst kv \<notin> set body_keys) ps))"

text \<open>
  What \<^verbatim>\<open>genClientParams\<close> does to one value, named for the proofs below.
\<close>

definition client_value :: "jsval \<Rightarrow> jsval" where
  "client_value v = (if isArray v then JStr (Array_join '','' (elements v)) else v)"

section \<open>Properties of the accessors\<close>

subsection \<open>Reading and writing the option map\<close>

lemma get_prop_update:
  "get_prop (AList.update k v ob) k' = (if k' = k then v else get_prop ob k')"
  by (simp add: get_prop_def update_conv')

lemma params_get_set:
  "params_get k' (params_set k v d) = (if k' = k then v else params_get k' d)"
  by (simp add: params_get_def params_set_def get_prop_update)

lemma toLowerCase_values:
  "toLowerCase ''internal'' = ''internal''"
  "toLowerCase ''external'' = ''external''"
  "toLowerCase ''index'' = ''index''"
  "toLowerCase ''create'' = ''create''"
  "toLowerCase ''async'' = ''async''"
  "toLowerCase ''sync'' = ''sync''"
  "toLowerCase ''default'' = ''default''"
  "toLowerCase ''one'' = ''one''"
  "toLowerCase ''quorum'' = ''quorum''"
  "toLowerCase ''all'' = ''all''"
  by (simp_all add: toLowerCase_def lower_char_def)

lemma not_null_cases:
  "\<not> eq_null v \<Longrightarrow> \<not> isString v \<Longrightarrow> call_toLowerCase v = Inl (NotAFunction ''toLowerCase'')"
  by (cases v) (simp_all add: eq_null_def isString_def)

lemma eq_null_simps:
  "eq_null JUndefined" "eq_null JNull" "\<not> eq_null (JBool b)" "\<not> eq_null (JNum n)"
  "\<not> eq_null (JStr s)" "\<not> eq_null (JArr xs)" "\<not> eq_null (JObj kvs)"
  by (simp_all add: eq_null_def)

lemma versionType_string:
  "versionType (JStr s) d =
     (if toLowerCase s = ''internal'' \<or> toLowerCase s = ''external''
      then (This, params_set ''version_type'' (JStr (toLowerCase s)) d) else (This, d))"
  by (simp add: versionType_def eq_null_simps)

lemma opType_string:
  "opType (JStr s) d =
     (if toLowerCase s = ''index'' \<or> toLowerCase s = ''create''
      then (This, params_set ''op_type'' (JStr (toLowerCase s)) d) else (This, d))"
  by (simp add: opType_def eq_null_simps)

lemma replication_string:
  "replication (JStr s) d =
     (if toLowerCase s = ''async'' \<or> toLowerCase s = ''sync'' \<or> toLowerCase s = ''default''
      then (This, params_set ''replication'' (JStr (toLowerCase s)) d) else (This, d))"
  by (simp add: replication_def eq_null_simps)

lemma consistency_string:
  "consistency (JStr s) d =
     (if toLowerCase s = ''default'' \<or> toLowerCase s = ''one'' \<or> toLowerCase s = ''quorum''
         \<or> toLowerCase s = ''all''
      then (This, params_set ''consistency'' (JStr (toLowerCase s)) d) else (This, d))"
  by (simp add: consistency_def eq_null_simps)

lemma enum_read:
  "versionType JUndefined d = (Value (params_get ''version_type'' d), d)"
  "opType JUndefined d = (Value (params_get ''op_type'' d), d)"
  "replication JUndefined d = (Value (params_get ''replication'' d), d)"
  "consistency JUndefined d = (Value (params_get ''consistency'' d), d)"
  by (simp_all add: versionType_def opType_def replication_def consistency_def eq_null_simps)

lemma enum_not_string:
  assumes "\<not> eq_null v" "\<not> isString v"
  shows "versionType v d = (Throw (NotAFunction ''toLowerCase''), d)"
    and "opType v d = (Throw (NotAFunction ''toLowerCase''), d)"
    and "replication v d = (Throw (NotAFunction ''toLowerCase''), d)"
    and "consistency v d = (Throw (NotAFunction ''toLowerCase''), d)"
  using assms
  by (simp_all add: versionType_def opType_def replication_def consistency_def not_null_cases)

subsection \<open>Enumerated options\<close>

text \<open>
  Claim C10. Each of \<^verbatim>\<open>versionType\<close>, \<^verbatim>\<open>opType\<close>, \<^verbatim>\<open>replication\<close> and
  \<^verbatim>\<open>consistency\<close> lowercases a non-null argument before it validates and stores it:
  a string whose lowercase form is a value of the option is accepted and stored in that
  lowercase form, which is what a later read returns, and a non-null argument that is
  not a string makes the lowercasing step throw a type error, the builder unchanged.
\<close>

theorem enumerated_lowercase:
  "(toLowerCase s \<in> {''internal'', ''external''} \<longrightarrow>
      versionType (JStr s) d = (This, params_set ''version_type'' (JStr (toLowerCase s)) d)
      \<and> fst (versionType JUndefined (snd (versionType (JStr s) d))) = Value (JStr (toLowerCase s)))
   \<and> (toLowerCase s \<in> {''index'', ''create''} \<longrightarrow>
      opType (JStr s) d = (This, params_set ''op_type'' (JStr (toLowerCase s)) d)
      \<and> fst (opType JUndefined (snd (opType (JStr s) d))) = Value (JStr (toLowerCase s)))
   \<and> (toLowerCase s \<in> {''async'', ''sync'', ''default''} \<longrightarrow>
      replication (JStr s) d = (This, params_set ''replication'' (JStr (toLowerCase s)) d)
      \<and> fst (replication JUndefined (snd (replication (JStr s) d))) = Value (JStr (toLowerCase s)))
   \<and> (toLowerCase s \<in> {''default'', ''one'', ''quorum'', ''all''} \<longrightarrow>
      consistency (JStr s) d = (This, params_set ''consistency'' (JStr (toLowerCase s)) d)
      \<and> fst (consistency JUndefined (snd (consistency (JStr s) d))) = Value (JStr (toLowerCase s)))
   \<and> (\<not> eq_null v \<and> \<not> isString v \<longrightarrow>
      versionType v d = (Throw (NotAFunction ''toLowerCase''), d)
      \<and> opType v d = (Throw (NotAFunction ''toLowerCase''), d)
      \<and> replication v d = (Throw (NotAFunction ''toLowerCase''), d)
      \<and> consistency v d = (Throw (NotAFunction ''toLowerCase''), d)
      \<and> is_TypeError (NotAFunction ''toLowerCase''))"
proof -
  have vt: "toLowerCase s \<in> {''internal'', ''external''} \<longrightarrow>
      versionType (JStr s) d = (This, params_set ''version_type'' (JStr (toLowerCase s)) d)
      \<and> fst (versionType JUndefined (snd (versionType (JStr s) d))) = Value (JStr (toLowerCase s))"
    by (auto simp: versionType_string enum_read params_get_set)
  have op: "toLowerCase s \<in> {''index'', ''create''} \<longrightarrow>
      opType (JStr s) d = (This, params_set ''op_type'' (JStr (toLowerCase s)) d)
      \<and> fst (opType JUndefined (snd (opType (JStr s) d))) = Value (JStr (toLowerCase s))"
    by (auto simp: opType_string enum_read params_get_set)
  have re: "toLowerCase s \<in> {''async'', ''sync'', ''default''} \<longrightarrow>
      replication (JStr s) d = (This, params_set ''replication'' (JStr (toLowerCase s)) d)
      \<and> fst (replication JUndefined (snd (replication (JStr s) d))) = Value (JStr (toLowerCase s))"
    by (auto simp: replication_string enum_read params_get_set)
  have co: "toLowerCase s \<in> {''default'', ''one'', ''quorum'', ''all''} \<longrightarrow>
      consistency (JStr s) d = (This, params_set ''consistency'' (JStr (toLowerCase s)) d)
      \<and> fst (consistency JUndefined (snd (consistency (JStr s) d))) = Value (JStr (toLowerCase s))"
    by (auto simp: consistency_string enum_read params_get_set)
  have ns: "\<not> eq_null v \<and> \<not> isString v \<longrightarrow>
      versionType v d = (Throw (NotAFunction ''toLowerCase''), d)
      \<and> opType v d = (Throw (NotAFunction ''toLowerCase''), d)
      \<and> replication v d = (Throw (NotAFunction ''toLowerCase''), d)
      \<and> consistency v d = (Throw (NotAFunction ''toLowerCase''), d)
      \<and> is_TypeError (NotAFunction ''toLowerCase'')"
    by (simp add: enum_not_string)
  from vt op re co ns show ?thesis by blast
qed

text \<open>
  The mixed-case values \<^verbatim>\<open>External\<close>, \<^verbatim>\<open>Create\<close>, \<^verbatim>\<open>SYNC\<close> and \<^verbatim>\<open>QUORUM\<close>
  on a fresh builder, and the arguments \<^verbatim>\<open>5\<close> and \<^verbatim>\<open>true\<close>.
\<close>

theorem enumerated_lowercase_witness:
  "versionType (JStr ''External'') (Document (JStr ''i'') (JStr ''t'') JNull)
     = (This, \<lparr>v_index = JStr ''i'', v_type = JStr ''t'', v_id = JNull,
               v_params = [(''version_type'', JStr ''external'')]\<rparr>)
   \<and> fst (versionType JUndefined
            (snd (versionType (JStr ''External'') (Document (JStr ''i'') (JStr ''t'') JNull))))
     = Value (JStr ''external'')
   \<and> fst (opType JUndefined
            (snd (opType (JStr ''Create'') (Document (JStr ''i'') (JStr ''t'') JNull))))
     = Value (JStr ''create'')
   \<and> fst (replication JUndefined
            (snd (replication (JStr ''SYNC'') (Document (JStr ''i'') (JStr ''t'') JNull))))
     = Value (JStr ''sync'')
   \<and> fst (consistency JUndefined
            (snd (consistency (JStr ''QUORUM'') (Document (JStr ''i'') (JStr ''t'') JNull))))
     = Value (JStr ''quorum'')
   \<and> versionType (JNum 5) (Document (JStr ''i'') (JStr ''t'') JNull)
     = (Throw (NotAFunction ''toLowerCase''), Document (JStr ''i'') (JStr ''t'') JNull)
   \<and> consistency (JBool True) (Document (JStr ''i'') (JStr ''t'') JNull)
     = (Throw (NotAFunction ''toLowerCase''), Document (JStr ''i'') (JStr ''t'') JNull)"
proof -
  have low: "toLowerCase ''External'' = ''external''" "toLowerCase ''Create'' = ''create''"
    "toLowerCase ''SYNC'' = ''sync''" "toLowerCase ''QUORUM'' = ''quorum''"
    by (simp_all add: toLowerCase_def lower_char_def)
  show ?thesis
    using enumerated_lowercase [of "''External''" "Document (JStr ''i'') (JStr ''t'') JNull" "JNum 5"]
      enumerated_lowercase [of "''Create''" "Document (JStr ''i'') (JStr ''t'') JNull" "JBool True"]
      enumerated_lowercase [of "''SYNC''" "Document (JStr ''i'') (JStr ''t'') JNull" "JBool True"]
      enumerated_lowercase [of "''QUORUM''" "Document (JStr ''i'') (JStr ''t'') JNull" "JBool True"]
    by (auto simp: low eq_null_simps isString_def Document_def params_set_def)
qed

subsection \<open>Out-of-set values and arguments of the wrong shape\<close>

text \<open>
  Claim C4, as the code has it. For each of \<^verbatim>\<open>versionType\<close>, \<^verbatim>\<open>opType\<close>,
  \<^verbatim>\<open>replication\<close> and \<^verbatim>\<open>consistency\<close> and every string whose lowercase form is
  not a value of the option, the call throws nothing, returns the builder and leaves it
  as it was, so the stored value, or its absence, is unchanged.
\<close>

theorem enumerated_invalid_ignored:
  "(toLowerCase s \<notin> {''internal'', ''external''} \<longrightarrow> versionType (JStr s) d = (This, d))
   \<and> (toLowerCase s \<notin> {''index'', ''create''} \<longrightarrow> opType (JStr s) d = (This, d))
   \<and> (toLowerCase s \<notin> {''async'', ''sync'', ''default''} \<longrightarrow>
        replication (JStr s) d = (This, d))
   \<and> (toLowerCase s \<notin> {''default'', ''one'', ''quorum'', ''all''} \<longrightarrow>
        consistency (JStr s) d = (This, d))"
  by (simp add: versionType_string opType_string replication_string consistency_string)

text \<open>
  The string \<^verbatim>\<open>bogus\<close>, on a builder that holds \<^verbatim>\<open>external\<close> as its version type
  and on a fresh one.
\<close>

theorem enumerated_invalid_ignored_witness:
  "versionType (JStr ''bogus'')
     \<lparr>v_index = JStr ''i'', v_type = JStr ''t'', v_id = JNull,
      v_params = [(''version_type'', JStr ''external'')]\<rparr>
   = (This, \<lparr>v_index = JStr ''i'', v_type = JStr ''t'', v_id = JNull,
             v_params = [(''version_type'', JStr ''external'')]\<rparr>)
   \<and> opType (JStr ''bogus'') (Document (JStr ''i'') (JStr ''t'') JNull)
     = (This, Document (JStr ''i'') (JStr ''t'') JNull)
   \<and> replication (JStr ''bogus'') (Document (JStr ''i'') (JStr ''t'') JNull)
     = (This, Document (JStr ''i'') (JStr ''t'') JNull)
   \<and> consistency (JStr ''bogus'') (Document (JStr ''i'') (JStr ''t'') JNull)
     = (This, Document (JStr ''i'') (JStr ''t'') JNull)"
proof -
  have low: "toLowerCase ''bogus'' = ''bogus''"
    by (simp add: toLowerCase_def lower_char_def)
  show ?thesis
    using enumerated_invalid_ignored [of "''bogus''"
        "\<lparr>v_index = JStr ''i'', v_type = JStr ''t'', v_id = JNull,
          v_params = [(''version_type'', JStr ''external'')]\<rparr>"]
      enumerated_invalid_ignored [of "''bogus''" "Document (JStr ''i'') (JStr ''t'') JNull"]
    by (simp add: low)
qed

text \<open>
  Claim C4 as it is stated speaks of every non-null argument outside the value set. The
  number \<^verbatim>\<open>5\<close> is one, and the call throws; the string \<^verbatim>\<open>External\<close> is one, and
  the call changes the stored value from absent to \<^verbatim>\<open>external\<close>.
\<close>

theorem enumerated_invalid_counterexample:
  "\<not> eq_null (JNum 5) \<and> JNum 5 \<notin> {JStr ''internal'', JStr ''external''}
   \<and> fst (versionType (JNum 5) (Document (JStr ''i'') (JStr ''t'') JNull))
       = Throw (NotAFunction ''toLowerCase'')
   \<and> \<not> eq_null (JStr ''External'')
   \<and> JStr ''External'' \<notin> {JStr ''internal'', JStr ''external''}
   \<and> params_get ''version_type'' (Document (JStr ''i'') (JStr ''t'') JNull) = JUndefined
   \<and> params_get ''version_type''
         (snd (versionType (JStr ''External'') (Document (JStr ''i'') (JStr ''t'') JNull)))
       = JStr ''external''"
proof -
  have low: "toLowerCase ''External'' = ''external''"
    by (simp add: toLowerCase_def lower_char_def)
  show ?thesis
    by (simp add: eq_null_simps versionType_def low params_get_set)
       (simp add: params_get_def get_prop_def Document_def)
qed

lemma object_accessors_wrong_shape:
  assumes "\<not> eq_null v" "\<not> isObject v"
  shows "params v d = (Throw (TypeError ''Argument must be an object''), d)"
    and "upsert v d = (Throw (TypeError ''Argument must be an object''), d)"
    and "source v d = (Throw (TypeError ''Argument must be an object''), d)"
  using assms by (simp_all add: params_def upsert_def source_def)

lemma fields_wrong_shape:
  assumes "\<not> eq_null v" "\<not> isString v" "\<not> isArray v"
  shows "fields v d =
           (Throw (TypeError ''Argument must be string or array''),
            if eq_null (params_get ''fields'' d) then params_set ''fields'' (JArr []) d else d)"
  using assms by (simp add: fields_def Let_def)

text \<open>
  Claim C9. A non-null argument that is not a key-value mapping makes \<^verbatim>\<open>params\<close>,
  \<^verbatim>\<open>upsert\<close> and \<^verbatim>\<open>source\<close> throw a \<^verbatim>\<open>TypeError\<close> at once, the builder and so
  the stored option unchanged; a non-null argument that is neither a string nor a sequence
  makes \<^verbatim>\<open>fields\<close> throw a \<^verbatim>\<open>TypeError\<close> at once, after the stored sequence has
  been made the empty one where it was unset.
\<close>

theorem shape_validation:
  "(\<not> eq_null v \<and> \<not> isObject v \<longrightarrow>
      params v d = (Throw (TypeError ''Argument must be an object''), d)
      \<and> upsert v d = (Throw (TypeError ''Argument must be an object''), d)
      \<and> source v d = (Throw (TypeError ''Argument must be an object''), d))
   \<and> (\<not> eq_null v \<and> \<not> isString v \<and> \<not> isArray v \<longrightarrow>
      fst (fields v d) = Throw (TypeError ''Argument must be string or array'')
      \<and> snd (fields v d) =
          (if eq_null (params_get ''fields'' d) then params_set ''fields'' (JArr []) d else d))"
  by (simp add: object_accessors_wrong_shape fields_wrong_shape)

text \<open>
  The number \<^verbatim>\<open>3\<close> as the argument of each of the four accessors.
\<close>

theorem shape_validation_witness:
  "params (JNum 3) \<lparr>v_index = JStr ''i'', v_type = JStr ''t'', v_id = JNull,
                    v_params = [(''params'', JObj [(''n'', JNum 1)])]\<rparr>
     = (Throw (TypeError ''Argument must be an object''),
        \<lparr>v_index = JStr ''i'', v_type = JStr ''t'', v_id = JNull,
         v_params = [(''params'', JObj [(''n'', JNum 1)])]\<rparr>)
   \<and> upsert (JNum 3) (Document (JStr ''i'') (JStr ''t'') JNull)
     = (Throw (TypeError ''Argument must be an object''), Document (JStr ''i'') (JStr ''t'') JNull)
   \<and> source (JNum 3) (Document (JStr ''i'') (JStr ''t'') JNull)
     = (Throw (TypeError ''Argument must be an object''), Document (JStr ''i'') (JStr ''t'') JNull)
   \<and> fields (JNum 3) (Document (JStr ''i'') (JStr ''t'') JNull)
     = (Throw (TypeError ''Argument must be string or array''),
        \<lparr>v_index = JStr ''i'', v_type = JStr ''t'', v_id = JNull,
         v_params = [(''fields'', JArr [])]\<rparr>)"
  using shape_validation [of "JNum 3"
      "\<lparr>v_index = JStr ''i'', v_type = JStr ''t'', v_id = JNull,
        v_params = [(''params'', JObj [(''n'', JNum 1)])]\<rparr>"]
    shape_validation [of "JNum 3" "Document (JStr ''i'') (JStr ''t'') JNull"]
  by (auto simp: eq_null_simps isObject_def isString_def isArray_def prod_eq_iff
        Document_def params_get_def params_set_def get_prop_def)

subsection \<open>Setting then reading, and the fields accessor\<close>

lemma round_trip_identity:
  assumes "\<not> eq_null v"
  shows "round_trip index v d" "round_trip type v d" "round_trip id' v d"
  using assms by (simp_all add: round_trip_def index_def type_def id'_def eq_null_simps)

lemma round_trip_plain:
  assumes "\<not> eq_null v"
  shows "round_trip routing v d" "round_trip parent v d" "round_trip timestamp v d"
    "round_trip ttl v d" "round_trip timeout v d" "round_trip refresh v d"
    "round_trip version v d" "round_trip percolate v d" "round_trip preference v d"
    "round_trip realtime v d" "round_trip script v d" "round_trip lang v d"
    "round_trip retryOnConflict v d"
  using assms
  by (simp_all add: round_trip_def routing_def parent_def timestamp_def ttl_def timeout_def
      refresh_def version_def percolate_def preference_def realtime_def script_def lang_def
      retryOnConflict_def eq_null_simps params_get_set)

lemma isObject_not_null: "isObject v \<Longrightarrow> \<not> eq_null v"
  by (cases v) (simp_all add: isObject_def eq_null_def)

lemma isArray_not_null: "isArray v \<Longrightarrow> \<not> eq_null v"
  by (cases v) (simp_all add: isArray_def eq_null_def)

lemma isArray_not_string: "isArray v \<Longrightarrow> \<not> isString v"
  by (cases v) (simp_all add: isArray_def isString_def)

lemma round_trip_object:
  assumes "isObject v"
  shows "round_trip params v d" "round_trip upsert v d" "round_trip source v d"
  using assms isObject_not_null [OF assms]
  by (simp_all add: round_trip_def params_def upsert_def source_def eq_null_simps params_get_set)

lemma fields_read:
  "fields JUndefined d =
     (if eq_null (params_get ''fields'' d)
      then (Value (JArr []), params_set ''fields'' (JArr []) d)
      else (Value (params_get ''fields'' d), d))"
  by (simp add: fields_def Let_def eq_null_simps params_get_set)

lemma fields_array:
  "isArray v \<Longrightarrow> fst (fields v d) = This \<and> params_get ''fields'' (snd (fields v d)) = v"
  by (simp add: fields_def Let_def isArray_not_null isArray_not_string params_get_set)

lemma round_trip_fields: "isArray v \<Longrightarrow> round_trip fields v d"
  by (simp add: round_trip_def fields_array fields_read isArray_not_null)

lemma round_trip_enumerated:
  "s \<in> {''internal'', ''external''} \<Longrightarrow> round_trip versionType (JStr s) d"
  "s \<in> {''index'', ''create''} \<Longrightarrow> round_trip opType (JStr s) d"
  "s \<in> {''async'', ''sync'', ''default''} \<Longrightarrow> round_trip replication (JStr s) d"
  "s \<in> {''default'', ''one'', ''quorum'', ''all''} \<Longrightarrow> round_trip consistency (JStr s) d"
  by (auto simp: round_trip_def versionType_string opType_string replication_string
      consistency_string toLowerCase_values enum_read params_get_set)

text \<open>
  Claim C6, as the code has it. Setting then reading returns the value passed for: every
  non-null value of the identity fields and of the options stored as they come; every
  key-value mapping passed to \<^verbatim>\<open>params\<close>, \<^verbatim>\<open>upsert\<close> and \<^verbatim>\<open>source\<close>; every
  sequence passed to \<^verbatim>\<open>fields\<close>; and every value of an enumerated option written in
  lowercase as the option lists it.
\<close>

theorem set_then_get:
  "(\<not> eq_null v \<longrightarrow>
      round_trip index v d \<and> round_trip type v d \<and> round_trip id' v d
      \<and> round_trip routing v d \<and> round_trip parent v d \<and> round_trip timestamp v d
      \<and> round_trip ttl v d \<and> round_trip timeout v d \<and> round_trip refresh v d
      \<and> round_trip version v d \<and> round_trip percolate v d \<and> round_trip preference v d
      \<and> round_trip realtime v d \<and> round_trip script v d \<and> round_trip lang v d
      \<and> round_trip retryOnConflict v d)
   \<and> (isObject v \<longrightarrow>
      round_trip params v d \<and> round_trip upsert v d \<and> round_trip source v d)
   \<and> (isArray v \<longrightarrow> round_trip fields v d)
   \<and> (s \<in> {''internal'', ''external''} \<longrightarrow> round_trip versionType (JStr s) d)
   \<and> (s \<in> {''index'', ''create''} \<longrightarrow> round_trip opType (JStr s) d)
   \<and> (s \<in> {''async'', ''sync'', ''default''} \<longrightarrow> round_trip replication (JStr s) d)
   \<and> (s \<in> {''default'', ''one'', ''quorum'', ''all''} \<longrightarrow>
        round_trip consistency (JStr s) d)"
proof -
  have a: "\<not> eq_null v \<longrightarrow>
      round_trip index v d \<and> round_trip type v d \<and> round_trip id' v d
      \<and> round_trip routing v d \<and> round_trip parent v d \<and> round_trip timestamp v d
      \<and> round_trip ttl v d \<and> round_trip timeout v d \<and> round_trip refresh v d
      \<and> round_trip version v d \<and> round_trip percolate v d \<and> round_trip preference v d
      \<and> round_trip realtime v d \<and> round_trip script v d \<and> round_trip lang v d
      \<and> round_trip retryOnConflict v d"
    by (simp add: round_trip_identity round_trip_plain)
  have b: "isObject v \<longrightarrow>
      round_trip params v d \<and> round_trip upsert v d \<and> round_trip source v d"
    by (simp add: round_trip_object)
  have c: "isArray v \<longrightarrow> round_trip fields v d"
    by (simp add: round_trip_fields)
  have e: "(s \<in> {''internal'', ''external''} \<longrightarrow> round_trip versionType (JStr s) d)
   \<and> (s \<in> {''index'', ''create''} \<longrightarrow> round_trip opType (JStr s) d)
   \<and> (s \<in> {''async'', ''sync'', ''default''} \<longrightarrow> round_trip replication (JStr s) d)
   \<and> (s \<in> {''default'', ''one'', ''quorum'', ''all''} \<longrightarrow>
        round_trip consistency (JStr s) d)"
    using round_trip_enumerated [of s d] by blast
  from a b c e show ?thesis by blast
qed

text \<open>
  A routing string, a version number, an id, a source document, a sequence of fields and
  two enumerated values, each set on a fresh builder and read back.
\<close>

theorem set_then_get_witness:
  "fst (routing JUndefined (snd (routing (JStr ''r1'') (Document (JStr ''i'') (JStr ''t'') JNull))))
     = Value (JStr ''r1'')
   \<and> fst (version JUndefined (snd (version (JNum 7) (Document (JStr ''i'') (JStr ''t'') JNull))))
     = Value (JNum 7)
   \<and> fst (id' JUndefined (snd (id' (JStr ''5'') (Document (JStr ''i'') (JStr ''t'') JNull))))
     = Value (JStr ''5'')
   \<and> fst (source JUndefined
        (snd (source (JObj [(''f'', JNum 1)]) (Document (JStr ''i'') (JStr ''t'') JNull))))
     = Value (JObj [(''f'', JNum 1)])
   \<and> fst (fields JUndefined
        (snd (fields (JArr [JStr ''x'', JStr ''y'']) (Document (JStr ''i'') (JStr ''t'') JNull))))
     = Value (JArr [JStr ''x'', JStr ''y''])
   \<and> fst (consistency JUndefined
        (snd (consistency (JStr ''one'') (Document (JStr ''i'') (JStr ''t'') JNull))))
     = Value (JStr ''one'')
   \<and> fst (replication JUndefined
        (snd (replication (JStr ''default'') (Document (JStr ''i'') (JStr ''t'') JNull))))
     = Value (JStr ''default'')"
  using set_then_get [of "JStr ''r1''" "Document (JStr ''i'') (JStr ''t'') JNull" "''one''"]
    set_then_get [of "JNum 7" "Document (JStr ''i'') (JStr ''t'') JNull" "''default''"]
    set_then_get [of "JStr ''5''" "Document (JStr ''i'') (JStr ''t'') JNull" "''one''"]
    set_then_get [of "JObj [(''f'', JNum 1)]" "Document (JStr ''i'') (JStr ''t'') JNull" "''one''"]
    set_then_get [of "JArr [JStr ''x'', JStr ''y'']" "Document (JStr ''i'') (JStr ''t'') JNull" "''one''"]
  by (simp add: round_trip_def eq_null_simps isObject_def isArray_def)

text \<open>
  Claim C6 as it is stated speaks of every accepted value. \<^verbatim>\<open>fields\<close> accepts the
  string \<^verbatim>\<open>a\<close> and reads back the sequence holding it, and \<^verbatim>\<open>versionType\<close> accepts
  \<^verbatim>\<open>External\<close> and reads back \<^verbatim>\<open>external\<close>.
\<close>

theorem set_then_get_counterexample:
  "\<not> round_trip fields (JStr ''a'') (Document (JStr ''i'') (JStr ''t'') JNull)
   \<and> \<not> round_trip versionType (JStr ''External'') (Document (JStr ''i'') (JStr ''t'') JNull)"
proof -
  have low: "toLowerCase ''External'' = ''external''"
    by (simp add: toLowerCase_def lower_char_def)
  have f: "fst (fields JUndefined (snd (fields (JStr ''a'') (Document (JStr ''i'') (JStr ''t'') JNull))))
      = Value (JArr [JStr ''a''])"
    by (simp add: fields_def Let_def eq_null_simps isString_def params_get_set)
       (simp add: params_get_def params_set_def get_prop_def Document_def eq_null_simps)
  have v: "fst (versionType JUndefined
        (snd (versionType (JStr ''External'') (Document (JStr ''i'') (JStr ''t'') JNull))))
      = Value (JStr ''external'')"
    by (simp add: versionType_string low enum_read params_get_set)
  from f v show ?thesis by (simp add: round_trip_def)
qed

lemma params_set_twice: "params_set k v (params_set k w d) = params_set k v d"
  by (simp add: params_set_def)

lemma fields_string:
  assumes "eq_null (params_get ''fields'' d) \<or> isArray (params_get ''fields'' d)"
  shows "fields (JStr s) d
     = (This, params_set ''fields'' (JArr (stored_fields d @ [JStr s])) d)"
proof (cases "eq_null (params_get ''fields'' d)")
  case True
  then show ?thesis
    by (simp add: fields_def Let_def eq_null_simps isString_def params_get_set stored_fields_def
        params_set_twice)
next
  case False
  with assms obtain xs where xs: "params_get ''fields'' d = JArr xs"
    by (cases "params_get ''fields'' d") (simp_all add: isArray_def)
  with False show ?thesis
    by (simp add: fields_def Let_def eq_null_simps isString_def params_get_set stored_fields_def)
qed

lemma fields_overwrite:
  "fields (JArr ys) d = (This, params_set ''fields'' (JArr ys) d)"
  by (simp add: fields_def Let_def eq_null_simps isString_def isArray_def params_set_twice)

lemma fields_twice:
  "snd (fields (JStr b) (snd (fields (JStr a) (Document ix ty i))))
     = (Document ix ty i)\<lparr>v_params := [(''fields'', JArr [JStr a, JStr b])]\<rparr>"
proof -
  let ?d = "Document ix ty i"
  have 0: "params_get ''fields'' ?d = JUndefined"
    by (simp add: params_get_def get_prop_def Document_def)
  have 1: "snd (fields (JStr a) ?d) = ?d\<lparr>v_params := [(''fields'', JArr [JStr a])]\<rparr>"
    using fields_string [of ?d a]
    by (simp add: 0 eq_null_simps stored_fields_def) (simp add: params_set_def Document_def)
  have 2: "params_get ''fields'' (?d\<lparr>v_params := [(''fields'', JArr [JStr a])]\<rparr>) = JArr [JStr a]"
    by (simp add: params_get_def get_prop_def)
  show ?thesis
    using fields_string [of "?d\<lparr>v_params := [(''fields'', JArr [JStr a])]\<rparr>" b]
    by (simp add: 1 2 isArray_def eq_null_simps stored_fields_def) (simp add: params_set_def)
qed

text \<open>
  Claim C5. With the stored value unset or a sequence, \<^verbatim>\<open>fields\<close> called with a
  string stores the current sequence with that string appended, unset counting as empty,
  so that two calls with \<open>a\<close> then \<open>b\<close> on a fresh builder leave exactly
  \<open>[a, b]\<close>; called with a sequence it stores exactly that sequence; and called with
  no argument on an unset value it stores the empty sequence and returns it, while a set
  value is returned as it is.
\<close>

theorem fields_semantics:
  "(eq_null (params_get ''fields'' d) \<or> isArray (params_get ''fields'' d) \<longrightarrow>
      fields (JStr s) d = (This, params_set ''fields'' (JArr (stored_fields d @ [JStr s])) d))
   \<and> snd (fields (JStr b) (snd (fields (JStr a) (Document ix ty i))))
       = (Document ix ty i)\<lparr>v_params := [(''fields'', JArr [JStr a, JStr b])]\<rparr>
   \<and> fields (JArr ys) d = (This, params_set ''fields'' (JArr ys) d)
   \<and> (eq_null (params_get ''fields'' d) \<longrightarrow>
        fields JUndefined d = (Value (JArr []), params_set ''fields'' (JArr []) d))
   \<and> (\<not> eq_null (params_get ''fields'' d) \<longrightarrow>
        fields JUndefined d = (Value (params_get ''fields'' d), d))"
  using fields_string [of d s] fields_twice [of b a ix ty i]
  by (simp add: fields_read fields_overwrite)

text \<open>
  The strings \<^verbatim>\<open>a\<close> then \<^verbatim>\<open>b\<close> on a fresh builder, \<^verbatim>\<open>c\<close> appended to a
  stored \<^verbatim>\<open>[a, b]\<close>, the sequence \<^verbatim>\<open>[x, y]\<close> overwriting it, and a read on a fresh
  builder.
\<close>

theorem fields_semantics_witness:
  "snd (fields (JStr ''b'') (snd (fields (JStr ''a'') (Document (JStr ''i'') (JStr ''t'') JNull))))
     = \<lparr>v_index = JStr ''i'', v_type = JStr ''t'', v_id = JNull,
        v_params = [(''fields'', JArr [JStr ''a'', JStr ''b''])]\<rparr>
   \<and> fields (JStr ''c'')
        \<lparr>v_index = JStr ''i'', v_type = JStr ''t'', v_id = JNull,
         v_params = [(''fields'', JArr [JStr ''a'', JStr ''b''])]\<rparr>
     = (This, \<lparr>v_index = JStr ''i'', v_type = JStr ''t'', v_id = JNull,
               v_params = [(''fields'', JArr [JStr ''a'', JStr ''b'', JStr ''c''])]\<rparr>)
   \<and> fields (JArr [JStr ''x'', JStr ''y''])
        \<lparr>v_index = JStr ''i'', v_type = JStr ''t'', v_id = JNull,
         v_params = [(''fields'', JArr [JStr ''a'', JStr ''b''])]\<rparr>
     = (This, \<lparr>v_index = JStr ''i'', v_type = JStr ''t'', v_id = JNull,
               v_params = [(''fields'', JArr [JStr ''x'', JStr ''y''])]\<rparr>)
   \<and> fields JUndefined (Document (JStr ''i'') (JStr ''t'') JNull)
     = (Value (JArr []), \<lparr>v_index = JStr ''i'', v_type = JStr ''t'', v_id = JNull,
                          v_params = [(''fields'', JArr [])]\<rparr>)"
  using fields_semantics [of "Document (JStr ''i'') (JStr ''t'') JNull" "''c''" "''b''" "''a''"
      "JStr ''i''" "JStr ''t''" JNull "[JStr ''x'', JStr ''y'']"]
    fields_semantics [of "\<lparr>v_index = JStr ''i'', v_type = JStr ''t'', v_id = JNull,
         v_params = [(''fields'', JArr [JStr ''a'', JStr ''b''])]\<rparr>" "''c''" "''b''" "''a''"
      "JStr ''i''" "JStr ''t''" JNull "[JStr ''x'', JStr ''y'']"]
  by (auto simp: eq_null_simps isArray_def stored_fields_def
      Document_def params_get_def params_set_def get_prop_def)

section \<open>Properties of the dispatch operations\<close>

subsection \<open>Preconditions\<close>

text \<open>
  Claim C7. When the index, the type or the id is unset, each of \<^verbatim>\<open>doGet\<close>,
  \<^verbatim>\<open>doUpdate\<close> and \<^verbatim>\<open>doDelete\<close> throws a precondition error and calls no client,
  and the builder is as it was: the error for the missing client when there is none, the
  error for the missing fields otherwise.
\<close>

theorem dispatch_requires_identity:
  "eq_null (v_index d) \<or> eq_null (v_type d) \<or> eq_null (v_id d) \<Longrightarrow>
   doGet c cb d =
     (Inl (if c = ClientUnset then Error ''No Client Set''
           else Error ''Index, Type, and ID must be set''), d)
   \<and> doUpdate c cb d =
     (Inl (if c = ClientUnset then Error ''No Client Set''
           else Error ''Index, Type, and ID must be set''), d)
   \<and> doDelete c cb d =
     (Inl (if c = ClientUnset then Error ''No Client Set''
           else Error ''Index, Type, and ID must be set''), d)"
  by (simp add: doGet_def doUpdate_def doDelete_def)

text \<open>
  A builder with no id for \<^verbatim>\<open>doGet\<close> and \<^verbatim>\<open>doUpdate\<close>, one with no index and one
  with no type for \<^verbatim>\<open>doDelete\<close>.
\<close>

theorem dispatch_requires_identity_witness:
  "doGet ClientObject () (Document (JStr ''i'') (JStr ''t'') JUndefined)
     = (Inl (Error ''Index, Type, and ID must be set''),
        Document (JStr ''i'') (JStr ''t'') JUndefined)
   \<and> doUpdate ClientObject ()
        \<lparr>v_index = JStr ''i'', v_type = JStr ''t'', v_id = JUndefined,
         v_params = [(''script'', JStr ''ctx._source.f+=1'')]\<rparr>
     = (Inl (Error ''Index, Type, and ID must be set''),
        \<lparr>v_index = JStr ''i'', v_type = JStr ''t'', v_id = JUndefined,
         v_params = [(''script'', JStr ''ctx._source.f+=1'')]\<rparr>)
   \<and> doDelete ClientObject () (Document JNull (JStr ''t'') (JStr ''5''))
     = (Inl (Error ''Index, Type, and ID must be set''),
        Document JNull (JStr ''t'') (JStr ''5''))
   \<and> doDelete ClientUnset () (Document (JStr ''i'') JUndefined (JStr ''5''))
     = (Inl (Error ''No Client Set''), Document (JStr ''i'') JUndefined (JStr ''5''))"
  using dispatch_requires_identity [of "Document (JStr ''i'') (JStr ''t'') JUndefined" ClientObject "()"]
    dispatch_requires_identity [of "\<lparr>v_index = JStr ''i'', v_type = JStr ''t'', v_id = JUndefined,
         v_params = [(''script'', JStr ''ctx._source.f+=1'')]\<rparr>" ClientObject "()"]
    dispatch_requires_identity [of "Document JNull (JStr ''t'') (JStr ''5'')" ClientObject "()"]
    dispatch_requires_identity [of "Document (JStr ''i'') JUndefined (JStr ''5'')" ClientUnset "()"]
  by (simp add: Document_def eq_null_simps)

text \<open>
  Claim C8. With no client configured each of the four dispatch operations throws the
  error \<^verbatim>\<open>No Client Set\<close>, whatever the builder holds, calls no client and leaves the
  builder as it was; and that error is thrown in no other case, so it is not one of the
  errors for missing fields.
\<close>

theorem dispatch_requires_client:
  "doGet ClientUnset cb d = (Inl (Error ''No Client Set''), d)
   \<and> doIndex ClientUnset cb d = (Inl (Error ''No Client Set''), d)
   \<and> doUpdate ClientUnset cb d = (Inl (Error ''No Client Set''), d)
   \<and> doDelete ClientUnset cb d = (Inl (Error ''No Client Set''), d)
   \<and> (fst (doGet c cb d) = Inl (Error ''No Client Set'')) = (c = ClientUnset)
   \<and> (fst (doIndex c cb d) = Inl (Error ''No Client Set'')) = (c = ClientUnset)
   \<and> (fst (doUpdate c cb d) = Inl (Error ''No Client Set'')) = (c = ClientUnset)
   \<and> (fst (doDelete c cb d) = Inl (Error ''No Client Set'')) = (c = ClientUnset)"
  by (simp add: doGet_def doIndex_def doUpdate_def doDelete_def Let_def)

text \<open>
  A builder with index, type and id set and no client; and, with a client, builders with
  fields missing, whose error is another one.
\<close>

theorem dispatch_requires_client_witness:
  "doGet ClientUnset () (Document (JStr ''i'') (JStr ''t'') (JStr ''5''))
     = (Inl (Error ''No Client Set''), Document (JStr ''i'') (JStr ''t'') (JStr ''5''))
   \<and> doIndex ClientUnset () (Document (JStr ''i'') (JStr ''t'') (JStr ''5''))
     = (Inl (Error ''No Client Set''), Document (JStr ''i'') (JStr ''t'') (JStr ''5''))
   \<and> doUpdate ClientUnset () (Document (JStr ''i'') (JStr ''t'') (JStr ''5''))
     = (Inl (Error ''No Client Set''), Document (JStr ''i'') (JStr ''t'') (JStr ''5''))
   \<and> doDelete ClientUnset () (Document (JStr ''i'') (JStr ''t'') (JStr ''5''))
     = (Inl (Error ''No Client Set''), Document (JStr ''i'') (JStr ''t'') (JStr ''5''))
   \<and> fst (doGet ClientObject () (Document (JStr ''i'') (JStr ''t'') JNull))
     \<noteq> Inl (Error ''No Client Set'')
   \<and> fst (doIndex ClientObject () (Document (JStr ''i'') JNull JNull))
     \<noteq> Inl (Error ''No Client Set'')"
  using dispatch_requires_client [of "()" "Document (JStr ''i'') (JStr ''t'') (JStr ''5'')" ClientUnset]
    dispatch_requires_client [of "()" "Document (JStr ''i'') (JStr ''t'') JNull" ClientObject]
    dispatch_requires_client [of "()" "Document (JStr ''i'') JNull JNull" ClientObject]
  by simp

subsection \<open>Store and partial update\<close>

text \<open>
  Claim C1. With a client, the index, the type and the source set, \<^verbatim>\<open>doIndex\<close> posts
  to \<^verbatim>\<open>/index/type\<close> when the id is unset and puts to \<^verbatim>\<open>/index/type/id\<close> when it
  is set; the body is the JSON text of the source, and the query string follows the URL
  after \<^verbatim>\<open>?\<close> exactly when it is not empty.
\<close>

theorem doIndex_request:
  assumes "\<not> eq_null (v_index d)" "\<not> eq_null (v_type d)"
    and "\<not> eq_null (params_get ''source'' d)"
  shows "doIndex ClientObject cb d =
     (Inr (ClientCall (if eq_null (v_id d) then POST else PUT)
            (''/'' @ toStr (v_index d) @ ''/'' @ toStr (v_type d)
               @ (if eq_null (v_id d) then [] else ''/'' @ toStr (v_id d))
               @ query_suffix d)
            (JSON_stringify (params_get ''source'' d)) cb), d)"
  using assms by (simp add: doIndex_def Let_def query_suffix_def)

text \<open>
  The specification's examples: index \<^verbatim>\<open>i\<close>, type \<^verbatim>\<open>t\<close>, source \<^verbatim>\<open>{"f":1}\<close>,
  with no id, and with id \<^verbatim>\<open>5\<close> and two options for the query string.
\<close>

theorem doIndex_request_witness:
  "doIndex ClientObject ()
      \<lparr>v_index = JStr ''i'', v_type = JStr ''t'', v_id = JUndefined,
       v_params = [(''source'', JObj [(''f'', JNum 1)])]\<rparr>
     = (Inr (ClientCall POST ''/i/t''
          (JStr [CHR ''{'', CHR 0x22, CHR ''f'', CHR 0x22, CHR '':'', CHR ''1'', CHR ''}'']) ()),
        \<lparr>v_index = JStr ''i'', v_type = JStr ''t'', v_id = JUndefined,
         v_params = [(''source'', JObj [(''f'', JNum 1)])]\<rparr>)
   \<and> doIndex ClientObject ()
      \<lparr>v_index = JStr ''i'', v_type = JStr ''t'', v_id = JStr ''5'',
       v_params = [(''source'', JObj [(''f'', JNum 1)]), (''routing'', JStr ''a b''),
                   (''fields'', JArr [JStr ''x'', JStr ''y''])]\<rparr>
     = (Inr (ClientCall PUT ''/i/t/5?routing=a%20b&fields=x%2Cy''
          (JStr [CHR ''{'', CHR 0x22, CHR ''f'', CHR 0x22, CHR '':'', CHR ''1'', CHR ''}'']) ()),
        \<lparr>v_index = JStr ''i'', v_type = JStr ''t'', v_id = JStr ''5'',
         v_params = [(''source'', JObj [(''f'', JNum 1)]), (''routing'', JStr ''a b''),
                     (''fields'', JArr [JStr ''x'', JStr ''y''])]\<rparr>)"
proof -
  have q1: "genParamStr [(''source'', JObj [(''f'', JNum 1)])] = []"
    by code_simp
  have q2: "genParamStr [(''source'', JObj [(''f'', JNum 1)]), (''routing'', JStr ''a b''),
                   (''fields'', JArr [JStr ''x'', JStr ''y''])] = ''routing=a%20b&fields=x%2Cy''"
    by code_simp
  have j: "JSON_stringify (JObj [(''f'', JNum 1)])
     = JStr [CHR ''{'', CHR 0x22, CHR ''f'', CHR 0x22, CHR '':'', CHR ''1'', CHR ''}'']"
    by code_simp
  show ?thesis
    using doIndex_request [of "\<lparr>v_index = JStr ''i'', v_type = JStr ''t'', v_id = JUndefined,
       v_params = [(''source'', JObj [(''f'', JNum 1)])]\<rparr>" "()"]
      doIndex_request [of "\<lparr>v_index = JStr ''i'', v_type = JStr ''t'', v_id = JStr ''5'',
       v_params = [(''source'', JObj [(''f'', JNum 1)]), (''routing'', JStr ''a b''),
                   (''fields'', JArr [JStr ''x'', JStr ''y''])]\<rparr>" "()"]
    by (simp add: eq_null_simps params_get_def get_prop_def query_suffix_def q1 q2 j)
qed

lemma update_body_built:
  "set_when (\<not> eq_null (params_get ''source'' d)) ''doc'' (params_get ''source'' d)
     (set_when (\<not> eq_null (params_get ''upsert'' d)) ''upsert'' (params_get ''upsert'' d)
       (set_when (\<not> eq_null (params_get ''params'' d)) ''params'' (params_get ''params'' d)
         (set_when (\<not> eq_null (params_get ''lang'' d)) ''lang'' (params_get ''lang'' d)
           (set_when (\<not> eq_null (params_get ''script'' d)) ''script'' (params_get ''script'' d)
              []))))
   = update_body d"
  by (simp add: set_when_def update_body_def)

lemma doUpdate_ok:
  assumes "\<not> eq_null (v_index d)" "\<not> eq_null (v_type d)" "\<not> eq_null (v_id d)"
    and "\<not> eq_null (params_get ''script'' d) \<or> \<not> eq_null (params_get ''source'' d)"
  shows "doUpdate ClientObject cb d =
     (Inr (ClientCall POST
            (''/'' @ toStr (v_index d) @ ''/'' @ toStr (v_type d) @ ''/'' @ toStr (v_id d)
               @ ''/_update'' @ query_suffix d)
            (JSON_stringify (JObj (update_body d))) cb), d)"
proof -
  from assms(4) have c: "\<not> (eq_null (params_get ''script'' d) \<and> eq_null (params_get ''source'' d))"
    by blast
  show ?thesis
    unfolding doUpdate_def Let_def update_body_built
    using assms(1-3) c by (simp add: query_suffix_def)
qed

lemma doUpdate_nothing_to_do:
  assumes "eq_null (params_get ''script'' d)" "eq_null (params_get ''source'' d)"
  shows "doUpdate c cb d =
     (Inl (if c = ClientUnset then Error ''No Client Set''
           else if eq_null (v_index d) \<or> eq_null (v_type d) \<or> eq_null (v_id d)
             then Error ''Index, Type, and ID must be set''
           else Error ''Update script or document required''), d)"
  using assms by (simp add: doUpdate_def)

text \<open>
  Claim C2. With a client, the index, the type and the id set and at least one of the
  script and the source set, \<^verbatim>\<open>doUpdate\<close> posts to \<^verbatim>\<open>/index/type/id/_update\<close>,
  followed by the query string when that is not empty; the body is the JSON text of the
  object that holds \<^verbatim>\<open>script\<close>, \<^verbatim>\<open>lang\<close>, \<^verbatim>\<open>params\<close> and \<^verbatim>\<open>upsert\<close>, each
  exactly when the option is set, and \<^verbatim>\<open>doc\<close> with the source exactly when that is
  set. With neither the script nor the source set it throws an error and calls no client.
\<close>

theorem doUpdate_request:
  "(\<not> eq_null (v_index d) \<and> \<not> eq_null (v_type d) \<and> \<not> eq_null (v_id d)
      \<and> (\<not> eq_null (params_get ''script'' d) \<or> \<not> eq_null (params_get ''source'' d)) \<longrightarrow>
      doUpdate ClientObject cb d =
        (Inr (ClientCall POST
               (''/'' @ toStr (v_index d) @ ''/'' @ toStr (v_type d) @ ''/'' @ toStr (v_id d)
                  @ ''/_update'' @ query_suffix d)
               (JSON_stringify (JObj (update_body d))) cb), d))
   \<and> (eq_null (params_get ''script'' d) \<and> eq_null (params_get ''source'' d) \<longrightarrow>
      doUpdate c cb d =
        (Inl (if c = ClientUnset then Error ''No Client Set''
              else if eq_null (v_index d) \<or> eq_null (v_type d) \<or> eq_null (v_id d)
                then Error ''Index, Type, and ID must be set''
              else Error ''Update script or document required''), d))"
  using doUpdate_ok [of d cb] doUpdate_nothing_to_do [of d c cb] by blast

text \<open>
  The specification's example, a script and no source; a source with a language and a
  retry count; and a builder with neither script nor source.
\<close>

theorem doUpdate_request_witness:
  "doUpdate ClientObject ()
      \<lparr>v_index = JStr ''i'', v_type = JStr ''t'', v_id = JStr ''5'',
       v_params = [(''script'', JStr ''ctx._source.f+=1'')]\<rparr>
     = (Inr (ClientCall POST ''/i/t/5/_update''
          (JStr ([CHR ''{'', CHR 0x22] @ ''script'' @ [CHR 0x22, CHR '':'', CHR 0x22]
                 @ ''ctx._source.f+=1'' @ [CHR 0x22, CHR ''}''])) ()),
        \<lparr>v_index = JStr ''i'', v_type = JStr ''t'', v_id = JStr ''5'',
         v_params = [(''script'', JStr ''ctx._source.f+=1'')]\<rparr>)
   \<and> doUpdate ClientObject ()
      \<lparr>v_index = JStr ''i'', v_type = JStr ''t'', v_id = JStr ''5'',
       v_params = [(''source'', JObj [(''f'', JNum 1)]), (''lang'', JStr ''mvel''),
                   (''retry_on_conflict'', JNum 3)]\<rparr>
     = (Inr (ClientCall POST ''/i/t/5/_update?retry_on_conflict=3''
          (JStr ([CHR ''{'', CHR 0x22] @ ''lang'' @ [CHR 0x22, CHR '':'', CHR 0x22] @ ''mvel''
                 @ [CHR 0x22, CHR '','', CHR 0x22] @ ''doc'' @ [CHR 0x22, CHR '':'', CHR ''{'', CHR 0x22]
                 @ ''f'' @ [CHR 0x22, CHR '':'', CHR ''1'', CHR ''}'', CHR ''}''])) ()),
        \<lparr>v_index = JStr ''i'', v_type = JStr ''t'', v_id = JStr ''5'',
         v_params = [(''source'', JObj [(''f'', JNum 1)]), (''lang'', JStr ''mvel''),
                     (''retry_on_conflict'', JNum 3)]\<rparr>)
   \<and> doUpdate ClientObject ()
      \<lparr>v_index = JStr ''i'', v_type = JStr ''t'', v_id = JStr ''5'',
       v_params = [(''lang'', JStr ''mvel'')]\<rparr>
     = (Inl (Error ''Update script or document required''),
        \<lparr>v_index = JStr ''i'', v_type = JStr ''t'', v_id = JStr ''5'',
         v_params = [(''lang'', JStr ''mvel'')]\<rparr>)"
proof -
  let ?d1 = "\<lparr>v_index = JStr ''i'', v_type = JStr ''t'', v_id = JStr ''5'',
       v_params = [(''script'', JStr ''ctx._source.f+=1'')]\<rparr>"
  let ?d2 = "\<lparr>v_index = JStr ''i'', v_type = JStr ''t'', v_id = JStr ''5'',
       v_params = [(''source'', JObj [(''f'', JNum 1)]), (''lang'', JStr ''mvel''),
                   (''retry_on_conflict'', JNum 3)]\<rparr>"
  let ?d3 = "\<lparr>v_index = JStr ''i'', v_type = JStr ''t'', v_id = JStr ''5'',
       v_params = [(''lang'', JStr ''mvel'')]\<rparr>"
  have q1: "query_suffix ?d1 = []" by code_simp
  have q2: "query_suffix ?d2 = ''?retry_on_conflict=3''" by code_simp
  have b1: "JSON_stringify (JObj (update_body ?d1))
     = JStr ([CHR ''{'', CHR 0x22] @ ''script'' @ [CHR 0x22, CHR '':'', CHR 0x22]
                 @ ''ctx._source.f+=1'' @ [CHR 0x22, CHR ''}''])"
    by code_simp
  have b2: "JSON_stringify (JObj (update_body ?d2))
     = JStr ([CHR ''{'', CHR 0x22] @ ''lang'' @ [CHR 0x22, CHR '':'', CHR 0x22] @ ''mvel''
                 @ [CHR 0x22, CHR '','', CHR 0x22] @ ''doc'' @ [CHR 0x22, CHR '':'', CHR ''{'', CHR 0x22]
                 @ ''f'' @ [CHR 0x22, CHR '':'', CHR ''1'', CHR ''}'', CHR ''}''])"
    by code_simp
  show ?thesis
    using doUpdate_request [of ?d1 "()" ClientObject] doUpdate_request [of ?d2 "()" ClientObject]
      doUpdate_request [of ?d3 "()" ClientObject]
    by (simp add: eq_null_simps params_get_def get_prop_def q1 q2 b1 b2)
qed

section \<open>The query-string renderer\<close>

lemma update_new_key:
  "k \<notin> fst ` set al \<Longrightarrow> AList.update k v al = al @ [(k, v)]"
  by (induction al) auto

lemma genClientParams_loop_eq:
  "distinct keys \<Longrightarrow> set keys \<inter> fst ` set acc = {} \<Longrightarrow>
   genClientParams_loop ps keys acc =
     acc @ map (\<lambda>k. (k, client_value (get_prop ps k)))
             (filter (\<lambda>k. has ps k \<and> k \<notin> set body_keys) keys)"
proof (induction keys arbitrary: acc)
  case Nil
  then show ?case by simp
next
  case (Cons k keys)
  show ?case
  proof (cases "has ps k \<and> k \<notin> set body_keys")
    case False
    with Cons show ?thesis
      by (auto simp: body_keys_def)
  next
    case True
    from Cons.prems have fresh: "k \<notin> fst ` set acc" by auto
    let ?acc = "acc @ [(k, client_value (get_prop ps k))]"
    from Cons.prems have "distinct keys" "set keys \<inter> fst ` set ?acc = {}" by auto
    from Cons.IH [OF this] True fresh show ?thesis
      by (simp add: body_keys_def Let_def client_value_def update_new_key)
  qed
qed

lemma get_prop_member:
  "distinct (map fst ps) \<Longrightarrow> (k, v) \<in> set ps \<Longrightarrow> get_prop ps k = v"
  by (simp add: get_prop_def)

lemma has_member: "(k, v) \<in> set ps \<Longrightarrow> has ps k"
  by (force simp: has_def map_of_eq_None_iff image_iff)

lemma genClientParams_eq:
  assumes "distinct (map fst ps)"
  shows "genClientParams ps =
     map (\<lambda>kv. (fst kv, client_value (snd kv))) (filter (\<lambda>kv. fst kv \<notin> set body_keys) ps)"
proof -
  have "genClientParams ps =
      map (\<lambda>k. (k, client_value (get_prop ps k)))
        (filter (\<lambda>k. has ps k \<and> k \<notin> set body_keys) (map fst ps))"
    using genClientParams_loop_eq [of "map fst ps" "[]" ps] assms
    by (simp add: genClientParams_def own_keys_def)
  also have "\<dots> = map (\<lambda>kv. (fst kv, client_value (get_prop ps (fst kv))))
        (filter (\<lambda>kv. has ps (fst kv) \<and> fst kv \<notin> set body_keys) ps)"
    by (simp add: filter_map comp_def)
  also have "\<dots> = map (\<lambda>kv. (fst kv, client_value (snd kv)))
        (filter (\<lambda>kv. fst kv \<notin> set body_keys) ps)"
  proof -
    have f: "filter (\<lambda>kv. has ps (fst kv) \<and> fst kv \<notin> set body_keys) ps
        = filter (\<lambda>kv. fst kv \<notin> set body_keys) ps"
      by (rule filter_cong) (auto intro: has_member)
    show ?thesis
      unfolding f
      by (rule map_cong) (auto simp: get_prop_member [OF assms])
  qed
  finally show ?thesis .
qed

lemma genParamStr_loop_eq:
  "genParamStr_loop cp keys parts =
     parts @ map (\<lambda>k. k @ ''='' @ encodeURIComponent (toStr (get_prop cp k)))
               (filter (has cp) keys)"
  by (induction keys arbitrary: parts) simp_all

lemma parts_of_client_params:
  assumes "distinct (map fst cp)"
  shows "genParamStr_loop cp (own_keys cp) [] =
     map (\<lambda>kv. fst kv @ ''='' @ encodeURIComponent (toStr (snd kv))) cp"
proof -
  have f: "filter (has cp) (map fst cp) = map fst cp"
    by (rule filter_True) (auto intro: has_member)
  have "genParamStr_loop cp (own_keys cp) [] =
      map (\<lambda>kv. fst kv @ ''='' @ encodeURIComponent (toStr (get_prop cp (fst kv)))) cp"
    by (simp add: genParamStr_loop_eq own_keys_def f comp_def)
  also have "\<dots> = map (\<lambda>kv. fst kv @ ''='' @ encodeURIComponent (toStr (snd kv))) cp"
    by (rule map_cong) (auto simp: get_prop_member [OF assms])
  finally show ?thesis .
qed

lemma toStr_array: "toStr (JArr xs) = Array_join '','' xs"
  by (simp add: Array_join_def eq_null_def)

lemma toStr_client_value:
  "encodeURIComponent (toStr (client_value v)) = query_value v"
  by (simp add: client_value_def query_value_def)

lemma distinct_filter_keys:
  "distinct (map fst ps) \<Longrightarrow> distinct (map fst (filter P ps))"
  by (simp add: distinct_map_filter)

lemma genParamStr_spec:
  assumes "distinct (map fst ps)"
  shows "genParamStr ps = query_string_spec ps"
proof -
  let ?cp = "map (\<lambda>kv. (fst kv, client_value (snd kv)))
               (filter (\<lambda>kv. fst kv \<notin> set body_keys) ps)"
  have d: "distinct (map fst ?cp)"
    using distinct_filter_keys [OF assms] by (simp add: comp_def)
  show ?thesis
    unfolding genParamStr_def Let_def genClientParams_eq [OF assms]
      parts_of_client_params [OF d] query_string_spec_def
    by (simp add: comp_def query_pair_def [abs_def] toStr_client_value)
qed

lemma filter_update_body_key:
  "k \<in> set body_keys \<Longrightarrow>
   filter (\<lambda>kv. fst kv \<notin> set body_keys) (AList.update k v ps)
     = filter (\<lambda>kv. fst kv \<notin> set body_keys) ps"
  by (induction ps) auto

lemma filter_delete_body_key:
  "k \<in> set body_keys \<Longrightarrow>
   filter (\<lambda>kv. fst kv \<notin> set body_keys) (AList.delete k ps)
     = filter (\<lambda>kv. fst kv \<notin> set body_keys) ps"
  by (induction ps) auto

text \<open>
  Claim C3. For every option map, \<^verbatim>\<open>genParamStr\<close> is the specification's rendering:
  the keys \<^verbatim>\<open>upsert\<close>, \<^verbatim>\<open>source\<close>, \<^verbatim>\<open>script\<close>, \<^verbatim>\<open>lang\<close> and \<^verbatim>\<open>params\<close>
  left out, the elements of a sequence joined with a comma, each value URL-encoded, and
  the pairs joined with \<^verbatim>\<open>&\<close>. Setting or removing one of the five keys does not change
  the output, and the output is empty when no other key is set. An option map, like every
  object, has each key once.
\<close>

theorem query_string_renderer:
  assumes "distinct (map fst ps)"
  shows "genParamStr ps = query_string_spec ps
     \<and> (k \<in> set body_keys \<longrightarrow>
          genParamStr (AList.update k v ps) = genParamStr ps
          \<and> genParamStr (AList.delete k ps) = genParamStr ps)
     \<and> ((\<forall>kv \<in> set ps. fst kv \<in> set body_keys) \<longrightarrow> genParamStr ps = [])"
proof -
  have 1: "genParamStr ps = query_string_spec ps"
    by (rule genParamStr_spec [OF assms])
  have 2: "genParamStr (AList.update k v ps) = genParamStr ps"
          "genParamStr (AList.delete k ps) = genParamStr ps" if "k \<in> set body_keys"
    using that assms
    by (simp_all add: genParamStr_spec distinct_update distinct_delete query_string_spec_def
        filter_update_body_key filter_delete_body_key)
  have 3: "genParamStr ps = []" if "\<forall>kv \<in> set ps. fst kv \<in> set body_keys"
  proof -
    from that have "filter (\<lambda>kv. fst kv \<notin> set body_keys) ps = []"
      by (simp add: filter_empty_conv)
    then show ?thesis by (simp add: 1 query_string_spec_def)
  qed
  from 1 2 3 show ?thesis by blast
qed

text \<open>
  An option map with a routing string to encode, a sequence of fields, a boolean and a
  number next to a source and a script; the same with an upsert document set; and a map
  that holds the five body keys only.
\<close>

theorem query_string_renderer_witness:
  "genParamStr [(''routing'', JStr ''a b&c''), (''source'', JObj [(''f'', JNum 1)]),
                (''fields'', JArr [JStr ''x'', JStr ''y'']), (''script'', JStr ''s''),
                (''refresh'', JBool True), (''version'', JNum 12)]
     = ''routing=a%20b%26c&fields=x%2Cy&refresh=true&version=12''
   \<and> genParamStr (AList.update ''upsert'' (JObj [])
        [(''routing'', JStr ''a b&c''), (''source'', JObj [(''f'', JNum 1)]),
         (''fields'', JArr [JStr ''x'', JStr ''y'']), (''script'', JStr ''s''),
         (''refresh'', JBool True), (''version'', JNum 12)])
     = ''routing=a%20b%26c&fields=x%2Cy&refresh=true&version=12''
   \<and> genParamStr [(''source'', JObj [(''f'', JNum 1)]), (''lang'', JStr ''mvel''),
                   (''params'', JObj []), (''upsert'', JObj []), (''script'', JStr ''s'')] = []"
proof -
  let ?ps = "[(''routing'', JStr ''a b&c''), (''source'', JObj [(''f'', JNum 1)]),
                (''fields'', JArr [JStr ''x'', JStr ''y'']), (''script'', JStr ''s''),
                (''refresh'', JBool True), (''version'', JNum 12)]"
  let ?qs = "[(''source'', JObj [(''f'', JNum 1)]), (''lang'', JStr ''mvel''),
                   (''params'', JObj []), (''upsert'', JObj []), (''script'', JStr ''s'')]"
  have e: "query_string_spec ?ps = ''routing=a%20b%26c&fields=x%2Cy&refresh=true&version=12''"
    by code_simp
  have d: "distinct (map fst ?ps)" "distinct (map fst ?qs)"
    by simp_all
  show ?thesis
    using query_string_renderer [OF d(1), of "''upsert''" "JObj []"]
      query_string_renderer [OF d(2), of "''upsert''" "JObj []"]
    by (auto simp: e body_keys_def)
qed

end
